theory Spec2Isabelle
  imports Complex_Main
begin

section \<open>Data model of the monitoring backend (backend/app.py)\<close>

text \<open>
  Python floats are read as real numbers: every comparison the code makes between two
  floats is the order of the reals on the values the floats denote, and the literals
  \<open>0.1\<close>, \<open>0.05\<close>, ... stand for the float the source text denotes; rounding and the
  non-finite floats (NaN, the infinities) are outside the model. A \<open>datetime\<close> is an
  instant counted in microseconds; the tables hold its \<open>isoformat()\<close> text, whose
  equality and byte order agree with equality and order of the instants, so the model
  keeps the instant in the timestamp columns.
\<close>

type_synonym datetime = int

text \<open>The exceptions (all subclasses of Python's \<open>Exception\<close>) that the modelled code raises.\<close>

datatype exn = KeyError | IndexError | ValueError | TypeError | OverflowError
  | IntegrityError | OperationalError | RequestException

text \<open>
  A decoded JSON document, as \<open>response.json()\<close> returns it: \<open>None\<close>, a bool, an int, a
  float, a str, a list or a dict with string keys (kept as an association list, the first
  binding of a key being the one in force).
\<close>

datatype json = JNull | JBool bool | JInt int | JFloat real | JStr string
  | JList "json list" | JDict "(string \<times> json) list"

text \<open>The dataclass \<open>ServiceMetrics\<close>.\<close>

record ServiceMetrics =
  service_name :: string
  timestamp :: datetime
  request_rate :: real
  error_rate :: real
  latency_p50 :: real
  latency_p95 :: real
  latency_p99 :: real
  cpu_usage :: real
  memory_usage :: real
  restart_count :: int
  pod_count :: int

text \<open>
  A row of table \<open>service_metrics\<close> as \<open>SELECT *\<close> returns it, a 12-tuple:
  id, service_name, timestamp, request_rate, error_rate, latency_p50, latency_p95,
  latency_p99, cpu_usage, memory_usage, restart_count, pod_count. The metric columns
  carry no NOT NULL constraint, so each may be NULL (Python \<open>None\<close>).
\<close>

type_synonym metric_row =
  "nat \<times> string \<times> datetime \<times> real option \<times> real option \<times> real option \<times> real option
   \<times> real option \<times> real option \<times> real option \<times> int option \<times> int option"

section \<open>Health scorer\<close>

text \<open>\<open>x or 0\<close> on a column value: \<open>None\<close> and \<open>0.0\<close> are falsy and give \<open>0\<close>.\<close>

definition or_0 :: "real option \<Rightarrow> real" where
  "or_0 v = (case v of None \<Rightarrow> 0 | Some x \<Rightarrow> if x = 0 then 0 else x)"

fun calculate_health_score :: "metric_row \<Rightarrow> int" where
  "calculate_health_score (rid, sname, ts, rr, er, p50, p95, p99, cpu, mem, rc, pc) =
     (let error_rate = or_0 er;
          latency_p95 = or_0 p95;
          cpu_usage = or_0 cpu;
          score = 100;
          score = (if error_rate > 0.1 then score - 30
                   else if error_rate > 0.05 then score - 15
                   else if error_rate > 0.01 then score - 5
                   else score);
          score = (if latency_p95 > 1000 then score - 25
                   else if latency_p95 > 500 then score - 15
                   else if latency_p95 > 200 then score - 5
                   else score);
          score = (if cpu_usage > 0.9 then score - 20
                   else if cpu_usage > 0.7 then score - 10
                   else score)
      in max 0 score)"

fun get_status_from_health :: "int \<Rightarrow> string" where
  "get_status_from_health health_score =
     (if health_score \<ge> 90 then ''healthy''
      else if health_score \<ge> 70 then ''degraded''
      else if health_score \<ge> 50 then ''warning''
      else ''critical'')"

subsection \<open>The penalty table of the specification\<close>

text \<open>
  The three penalties as the specification words them (worst matching bracket per
  metric), to be compared with \<open>calculate_health_score\<close>.
\<close>

definition spec_error_rate_penalty :: "real \<Rightarrow> int" where
  "spec_error_rate_penalty x =
     (if x > 0.10 then 30 else if x > 0.05 then 15 else if x > 0.01 then 5 else 0)"

definition spec_latency_penalty :: "real \<Rightarrow> int" where
  "spec_latency_penalty x =
     (if x > 1000 then 25 else if x > 500 then 15 else if x > 200 then 5 else 0)"

definition spec_cpu_penalty :: "real \<Rightarrow> int" where
  "spec_cpu_penalty x = (if x > 0.90 then 20 else if x > 0.70 then 10 else 0)"

definition spec_total_penalty :: "metric_row \<Rightarrow> int" where
  "spec_total_penalty row =
     (case row of (rid, sname, ts, rr, er, p50, p95, p99, cpu, mem, rc, pc) \<Rightarrow>
        spec_error_rate_penalty (or_0 er) + spec_latency_penalty (or_0 p95)
          + spec_cpu_penalty (or_0 cpu))"

section \<open>Properties of the health scorer\<close>

lemma spec_error_rate_penalty_range: "0 \<le> spec_error_rate_penalty x \<and> spec_error_rate_penalty x \<le> 30"
  by (simp add: spec_error_rate_penalty_def)

lemma spec_latency_penalty_range: "0 \<le> spec_latency_penalty x \<and> spec_latency_penalty x \<le> 25"
  by (simp add: spec_latency_penalty_def)

lemma spec_cpu_penalty_range: "0 \<le> spec_cpu_penalty x \<and> spec_cpu_penalty x \<le> 20"
  by (simp add: spec_cpu_penalty_def)

lemma spec_total_penalty_range: "0 \<le> spec_total_penalty row \<and> spec_total_penalty row \<le> 75"
proof -
  obtain rid sname ts rr er p50 p95 p99 cpu mem rc pc
    where row: "row = (rid, sname, ts, rr, er, p50, p95, p99, cpu, mem, rc, pc)"
    by (metis prod_cases3)
  show ?thesis
    using spec_error_rate_penalty_range [of "or_0 er"] spec_latency_penalty_range [of "or_0 p95"]
      spec_cpu_penalty_range [of "or_0 cpu"]
    by (simp add: row spec_total_penalty_def)
qed

lemma score_unclamped: "calculate_health_score row = 100 - spec_total_penalty row"
proof -
  obtain rid sname ts rr er p50 p95 p99 cpu mem rc pc
    where row: "row = (rid, sname, ts, rr, er, p50, p95, p99, cpu, mem, rc, pc)"
    by (metis prod_cases3)
  show ?thesis
    by (simp add: row spec_total_penalty_def spec_error_rate_penalty_def
        spec_latency_penalty_def spec_cpu_penalty_def Let_def)
qed

lemma score_multiple_of_5: "calculate_health_score row mod 5 = 0"
proof -
  obtain rid sname ts rr er p50 p95 p99 cpu mem rc pc
    where row: "row = (rid, sname, ts, rr, er, p50, p95, p99, cpu, mem, rc, pc)"
    by (metis prod_cases3)
  show ?thesis
    by (simp add: row Let_def)
qed

lemma score_range: "25 \<le> calculate_health_score row \<and> calculate_health_score row \<le> 100"
  using spec_total_penalty_range [of row] by (simp add: score_unclamped)

lemma status_brackets:
  "(get_status_from_health s = ''healthy'') = (90 \<le> s)
   \<and> (get_status_from_health s = ''degraded'') = (70 \<le> s \<and> s < 90)
   \<and> (get_status_from_health s = ''warning'') = (50 \<le> s \<and> s < 70)
   \<and> (get_status_from_health s = ''critical'') = (s < 50)"
  by auto

lemma score_below_50: "(calculate_health_score row < 50) = (calculate_health_score row \<le> 45)"
  using score_multiple_of_5 [of row] by presburger

text \<open>
  C1. For every metric row the health score is 100 minus the sum of the three bracket
  penalties of the specification's table, clamped below at 0, and lies in [0, 100]. At
  the exact boundary values 0.01, 0.05, 0.10 / 200, 500, 1000 / 0.70, 0.90 the bracket
  with that bound does not apply (only the next lower one does). The status of a score
  is healthy exactly from 90, degraded exactly on [70, 90), warning exactly on [50, 70)
  and critical exactly below 50. Both are functions of their argument alone.
\<close>

theorem health_score_and_status:
  "calculate_health_score row = max 0 (100 - spec_total_penalty row)
   \<and> 0 \<le> calculate_health_score row \<and> calculate_health_score row \<le> 100
   \<and> calculate_health_score (rid, sname, ts, rr, Some 0.01, p50, Some 200, p99, Some 0.7, mem, rc, pc) = 100
   \<and> calculate_health_score (rid, sname, ts, rr, Some 0.05, p50, None, p99, None, mem, rc, pc) = 95
   \<and> calculate_health_score (rid, sname, ts, rr, Some 0.1, p50, None, p99, None, mem, rc, pc) = 85
   \<and> calculate_health_score (rid, sname, ts, rr, None, p50, Some 500, p99, None, mem, rc, pc) = 95
   \<and> calculate_health_score (rid, sname, ts, rr, None, p50, Some 1000, p99, None, mem, rc, pc) = 85
   \<and> calculate_health_score (rid, sname, ts, rr, None, p50, None, p99, Some 0.9, mem, rc, pc) = 90
   \<and> (get_status_from_health s = ''healthy'') = (90 \<le> s)
   \<and> (get_status_from_health s = ''degraded'') = (70 \<le> s \<and> s < 90)
   \<and> (get_status_from_health s = ''warning'') = (50 \<le> s \<and> s < 70)
   \<and> (get_status_from_health s = ''critical'') = (s < 50)"
proof -
  have clamp: "calculate_health_score row = max 0 (100 - spec_total_penalty row)"
    using spec_total_penalty_range [of row] by (simp add: score_unclamped)
  have range: "0 \<le> calculate_health_score row \<and> calculate_health_score row \<le> 100"
    using score_range [of row] by simp
  have bounds:
    "calculate_health_score (rid, sname, ts, rr, Some 0.01, p50, Some 200, p99, Some 0.7, mem, rc, pc) = 100"
    "calculate_health_score (rid, sname, ts, rr, Some 0.05, p50, None, p99, None, mem, rc, pc) = 95"
    "calculate_health_score (rid, sname, ts, rr, Some 0.1, p50, None, p99, None, mem, rc, pc) = 85"
    "calculate_health_score (rid, sname, ts, rr, None, p50, Some 500, p99, None, mem, rc, pc) = 95"
    "calculate_health_score (rid, sname, ts, rr, None, p50, Some 1000, p99, None, mem, rc, pc) = 85"
    "calculate_health_score (rid, sname, ts, rr, None, p50, None, p99, Some 0.9, mem, rc, pc) = 90"
    by (simp_all add: or_0_def)
  from clamp range bounds status_brackets [of s] show ?thesis
    by blast
qed

text \<open>
  C9. Every health score is at least 25: the penalties sum to at most 30 + 25 + 20 = 75,
  so the clamp at 0 never changes the value, and a score has status critical exactly
  when it lies in [25, 45]; both ends are attained.
\<close>

theorem health_score_at_least_25:
  "25 \<le> calculate_health_score row
   \<and> spec_total_penalty row \<le> 30 + 25 + 20
   \<and> calculate_health_score row = 100 - spec_total_penalty row
   \<and> (get_status_from_health (calculate_health_score row) = ''critical'')
       = (25 \<le> calculate_health_score row \<and> calculate_health_score row \<le> 45)
   \<and> (\<exists>r. calculate_health_score r = 25) \<and> (\<exists>r. calculate_health_score r = 45)"
proof -
  have crit: "(get_status_from_health (calculate_health_score row) = ''critical'')
       = (25 \<le> calculate_health_score row \<and> calculate_health_score row \<le> 45)"
    using status_brackets [of "calculate_health_score row"] score_below_50 [of row]
      score_range [of row] by blast
  have "calculate_health_score (0, [], 0, None, Some 1, None, Some 2000, None, Some 1, None, None, None) = 25"
    by (simp add: or_0_def)
  then have lo: "\<exists>r. calculate_health_score r = 25" by blast
  have "calculate_health_score (0, [], 0, None, Some 1, None, Some 2000, None, None, None, None, None) = 45"
    by (simp add: or_0_def)
  then have hi: "\<exists>r. calculate_health_score r = 45" by blast
  from crit lo hi score_range [of row] spec_total_penalty_range [of row] score_unclamped [of row]
  show ?thesis by simp
qed

section \<open>The SQLite store\<close>

text \<open>
  A row of table \<open>metrics_anomalies\<close>, a 9-tuple: id, service_name, timestamp,
  anomaly_type, severity, anomaly_score, affected_metrics, description, created_at.
\<close>

type_synonym anomaly_row =
  "nat \<times> string \<times> datetime \<times> string option \<times> string option \<times> real option
   \<times> string option \<times> string option \<times> datetime"

text \<open>
  A row of table \<open>services\<close>: id, service_name, service_type, status, created_at,
  last_seen.
\<close>

type_synonym service_row =
  "nat \<times> string \<times> string option \<times> string \<times> datetime \<times> datetime option"

text \<open>
  The database file: the three tables in rowid order, and for the two AUTOINCREMENT
  tables written here the largest rowid handed out so far (SQLite's \<open>sqlite_sequence\<close>).
\<close>

record database =
  service_metrics :: "metric_row list"
  service_metrics_seq :: nat
  metrics_anomalies :: "anomaly_row list"
  metrics_anomalies_seq :: nat
  services :: "service_row list"

text \<open>
  What lies outside the program. Every interaction with the outside is numbered, and the
  \<open>k\<close>-th one sees: \<open>clock k\<close>, the wall clock; \<open>db_fault k\<close>, the exception
  \<open>sqlite3.connect\<close> raises, if any; \<open>http_get k url_query\<close>, what \<open>requests.get\<close>
  followed by \<open>response.json()\<close> yields for a Prometheus query. Two library
  functions are taken as they come: \<open>str_to_float\<close>, Python's \<open>float\<close> on a str
  (\<open>None\<close> where it raises ValueError), and \<open>ecod\<close>, fitting pyod's
  \<open>ECOD(contamination=0.1)\<close> on a float matrix, which yields \<open>decision_scores_\<close> and
  \<open>labels_\<close> or raises.
\<close>

record outside =
  clock :: "nat \<Rightarrow> datetime"
  db_fault :: "nat \<Rightarrow> exn option"
  http_get :: "nat \<Rightarrow> string \<Rightarrow> exn + json"
  str_to_float :: "string \<Rightarrow> real option"
  ecod :: "real list list \<Rightarrow> exn + (real list \<times> int list)"

text \<open>
  The state the program runs on: the database, the number of interactions made so far,
  the lines printed and the seconds slept.
\<close>

record world =
  db :: database
  io :: nat
  stdout :: "string list"
  slept :: nat

text \<open>A statement that may raise: the exception or the value, and the state it leaves.\<close>

type_synonym 'a action = "world \<Rightarrow> (exn + 'a) \<times> world"

definition sqlite3_connect :: "outside \<Rightarrow> unit action" where
  "sqlite3_connect out w =
     (case db_fault out (io w) of
        Some x \<Rightarrow> (Inl x, w\<lparr>io := Suc (io w)\<rparr>)
      | None \<Rightarrow> (Inr (), w\<lparr>io := Suc (io w)\<rparr>))"

definition datetime_now :: "outside \<Rightarrow> world \<Rightarrow> datetime \<times> world" where
  "datetime_now out w = (clock out (io w), w\<lparr>io := Suc (io w)\<rparr>)"

subsection \<open>INSERT into \<open>service_metrics\<close>\<close>

text \<open>
  The table declares \<open>UNIQUE(service_name, timestamp)\<close>. An INSERT whose key is taken
  raises \<open>IntegrityError\<close> under the default conflict clause and, under \<open>OR REPLACE\<close>,
  first deletes the rows holding the key. The new row takes the next rowid.
\<close>

datatype conflict_clause = Abort | Replace

fun metric_key :: "metric_row \<Rightarrow> string \<times> datetime" where
  "metric_key (rid, sname, ts, rest) = (sname, ts)"

fun metric_payload :: "metric_row \<Rightarrow> string \<times> datetime \<times> real option \<times> real option \<times> real option
    \<times> real option \<times> real option \<times> real option \<times> real option \<times> int option \<times> int option" where
  "metric_payload (rid, vals) = vals"

definition insert_service_metrics ::
  "conflict_clause \<Rightarrow> string \<times> datetime \<times> real option \<times> real option \<times> real option
    \<times> real option \<times> real option \<times> real option \<times> real option \<times> int option \<times> int option
    \<Rightarrow> database \<Rightarrow> exn + database" where
  "insert_service_metrics oc vals d =
     (let k = (fst vals, fst (snd vals));
          rid = Suc (service_metrics_seq d)
      in if k \<in> set (map metric_key (service_metrics d)) \<and> oc = Abort then Inl IntegrityError
         else Inr (d\<lparr>service_metrics :=
                        filter (\<lambda>r. metric_key r \<noteq> k) (service_metrics d) @ [(rid, vals)],
                      service_metrics_seq := rid\<rparr>))"



text \<open>The payload a \<open>ServiceMetrics\<close> value is stored as.\<close>

definition stored_payload :: "ServiceMetrics \<Rightarrow> string \<times> datetime \<times> real option \<times> real option
    \<times> real option \<times> real option \<times> real option \<times> real option \<times> real option \<times> int option \<times> int option" where
  "stored_payload m =
     (service_name m, timestamp m, Some (request_rate m), Some (error_rate m),
      Some (latency_p50 m), Some (latency_p95 m), Some (latency_p99 m), Some (cpu_usage m),
      Some (memory_usage m), Some (restart_count m), Some (pod_count m))"

text \<open>The payloads stored under a key.\<close>

definition payloads_at :: "string \<times> datetime \<Rightarrow> database \<Rightarrow> (string \<times> datetime \<times> real option
    \<times> real option \<times> real option \<times> real option \<times> real option \<times> real option \<times> real option
    \<times> int option \<times> int option) list" where
  "payloads_at k d = map metric_payload (filter (\<lambda>r. metric_key r = k) (service_metrics d))"

section \<open>Anomaly detector\<close>

subsection \<open>Library functions the detector calls\<close>

text \<open>\<open>sep.join(xs)\<close>.\<close>

fun py_join :: "string \<Rightarrow> string list \<Rightarrow> string" where
  "py_join sep [] = []"
| "py_join sep [x] = x"
| "py_join sep (x # y # ys) = x @ sep @ py_join sep (y # ys)"

text \<open>
  \<open>s.split(sep)\<close>: the pieces between the occurrences of \<open>sep\<close>, found from the left and
  not overlapping; ValueError on an empty separator.
\<close>

fun split_from :: "string \<Rightarrow> string \<Rightarrow> string \<Rightarrow> string list" where
  "split_from sep cur [] = [cur]"
| "split_from sep cur (c # cs) =
     (if sep \<noteq> [] \<and> take (length sep) (c # cs) = sep
      then cur # split_from sep [] (drop (length sep - 1) cs)
      else split_from sep (cur @ [c]) cs)"

definition py_split :: "string \<Rightarrow> string \<Rightarrow> exn + string list" where
  "py_split s sep = (if sep = [] then Inl ValueError else Inr (split_from sep [] s))"

text \<open>\<open>s.capitalize()\<close> on ASCII text: first character upper case, the others lower case.\<close>

definition ascii_upper :: "char \<Rightarrow> char" where
  "ascii_upper c = (let n = (of_char c :: nat) in if 97 \<le> n \<and> n \<le> 122 then char_of (n - 32) else c)"

definition ascii_lower :: "char \<Rightarrow> char" where
  "ascii_lower c = (let n = (of_char c :: nat) in if 65 \<le> n \<and> n \<le> 90 then char_of (n + 32) else c)"

fun capitalize :: "string \<Rightarrow> string" where
  "capitalize [] = []"
| "capitalize (c # cs) = ascii_upper c # map ascii_lower cs"

text \<open>
  \<open>np.mean\<close> and \<open>np.std\<close> (the population standard deviation) of a column, and the
  column \<open>features[:, i]\<close> of a matrix kept as its list of rows. The detector calls them
  on columns of at least 10 entries.
\<close>

definition np_mean :: "real list \<Rightarrow> real" where
  "np_mean xs = sum_list xs / real (length xs)"

definition np_std :: "real list \<Rightarrow> real" where
  "np_std xs = sqrt (np_mean (map (\<lambda>x. \<bar>x - np_mean xs\<bar> ^ 2) xs))"

definition column :: "real list list \<Rightarrow> nat \<Rightarrow> real list" where
  "column X i = map (\<lambda>row. row ! i) X"

text \<open>
  \<open>model.fit(features)\<close>: the input check of the library raises ValueError on a matrix
  with a missing entry (a NULL column value arrives as \<open>None\<close>); otherwise the model
  is fitted on the float matrix.
\<close>

definition as_float_matrix :: "real option list list \<Rightarrow> exn + real list list" where
  "as_float_matrix features =
     (if list_all (list_all (\<lambda>v. \<not> Option.is_none v)) features then Inr (map (map the) features)
      else Inl ValueError)"

definition ecod_fit :: "outside \<Rightarrow> real option list list
    \<Rightarrow> exn + (real list list \<times> real list \<times> int list)" where
  "ecod_fit out features =
     (case as_float_matrix features of
        Inl x \<Rightarrow> Inl x
      | Inr X \<Rightarrow> (case ecod out X of Inl x \<Rightarrow> Inl x | Inr (scores, labels) \<Rightarrow> Inr (X, scores, labels)))"

subsection \<open>\<open>AnomalyDetector\<close>\<close>

text \<open>The dict \<open>detect_anomalies\<close> builds for an anomaly, by its keys.\<close>

record anomaly =
  anomaly_service_name :: string
  anomaly_timestamp :: datetime
  anomaly_type :: string
  severity :: string
  anomaly_score :: real
  affected_metrics :: string
  description :: string

fun metric_service_name :: "metric_row \<Rightarrow> string" where
  "metric_service_name (rid, sname, ts, rest) = sname"

fun metric_timestamp :: "metric_row \<Rightarrow> datetime" where
  "metric_timestamp (rid, sname, ts, rest) = ts"

text \<open>The six columns the detector selects, as floats.\<close>

fun feature_columns :: "metric_row \<Rightarrow> real option list" where
  "feature_columns (rid, sname, ts, rr, er, p50, p95, p99, cpu, mem, rc, pc) =
     [rr, er, p95, cpu, mem, map_option real_of_int rc]"

text \<open>
  The rows \<open>WHERE service_name = ? AND timestamp > ? ORDER BY timestamp DESC\<close>. (Rows of
  one service have distinct timestamps under the UNIQUE constraint; the sort is stable
  where the list does not satisfy it.)
\<close>

definition window_rows :: "database \<Rightarrow> string \<Rightarrow> datetime \<Rightarrow> metric_row list" where
  "window_rows d sname cutoff =
     sort_key (\<lambda>r. - metric_timestamp r)
       (filter (\<lambda>r. metric_service_name r = sname \<and> metric_timestamp r > cutoff) (service_metrics d))"

definition timedelta_hours :: "int \<Rightarrow> int" where
  "timedelta_hours h = h * 3600000000"

definition get_metric_features :: "outside \<Rightarrow> string \<Rightarrow> int \<Rightarrow> real option list list action" where
  "get_metric_features out sname hours w =
     (case sqlite3_connect out w of
        (Inl x, w1) \<Rightarrow> (Inl x, w1)
      | (Inr u, w1) \<Rightarrow>
          (case datetime_now out w1 of
             (now, w2) \<Rightarrow>
               (let cutoff_time = now - timedelta_hours hours;
                    rows = map feature_columns (window_rows (db w2) sname cutoff_time)
                in (Inr (if rows = [] then [] else rows), w2))))"

definition metric_names :: "string list" where
  "metric_names = [''request_rate'', ''error_rate'', ''latency_p95'', ''cpu_usage'',
     ''memory_usage'', ''restart_count'']"

definition determine_severity :: "real \<Rightarrow> string" where
  "determine_severity score =
     (if score > 0.9 then ''critical''
      else if score > 0.7 then ''high''
      else if score > 0.5 then ''medium''
      else ''low'')"

text \<open>
  The inner loop \<open>for i, (metric_name, value) in enumerate(zip(metric_names,
  feature_vector))\<close>, collecting \<open>affected_metrics\<close>.
\<close>

fun find_affected :: "real list list \<Rightarrow> nat \<Rightarrow> (string \<times> real) list \<Rightarrow> string list" where
  "find_affected features i [] = []"
| "find_affected features i ((metric_name, v) # rest) =
     (let metric_mean = np_mean (column features i);
          metric_std = np_std (column features i)
      in if \<bar>v - metric_mean\<bar> > 2 * metric_std
         then metric_name # find_affected features (Suc i) rest
         else find_affected features (Suc i) rest)"

definition generate_description :: "string \<Rightarrow> string list \<Rightarrow> string" where
  "generate_description sev affected =
     (if affected = [] then capitalize sev @ '' anomaly detected in service behavior''
      else capitalize sev @ '' anomaly: unusual patterns in '' @ py_join '', '' affected)"

text \<open>
  \<open>_store_anomaly\<close>: connect and INSERT into \<open>metrics_anomalies\<close>; the table has no key but
  the rowid, and \<open>created_at\<close> takes the default CURRENT_TIMESTAMP.
\<close>

definition store_anomaly :: "outside \<Rightarrow> anomaly \<Rightarrow> unit action" where
  "store_anomaly out a w =
     (case sqlite3_connect out w of
        (Inl x, w1) \<Rightarrow> (Inl x, w1)
      | (Inr u, w1) \<Rightarrow>
          (case datetime_now out w1 of
             (created_at, w2) \<Rightarrow>
               (let rid = Suc (metrics_anomalies_seq (db w2));
                    row = (rid, anomaly_service_name a, anomaly_timestamp a, Some (anomaly_type a),
                           Some (severity a), Some (anomaly_score a), Some (affected_metrics a),
                           Some (description a), created_at)
                in (Inr (), w2\<lparr>db := (db w2)\<lparr>metrics_anomalies := metrics_anomalies (db w2) @ [row],
                                              metrics_anomalies_seq := rid\<rparr>\<rparr>))))"

text \<open>
  The loop \<open>for idx, (score, is_anomaly) in enumerate(zip(recent_scores,
  recent_predictions))\<close> of \<open>detect_anomalies\<close>, from index \<open>idx\<close> on, with the list
  \<open>anomalies\<close> built so far.
\<close>

fun detect_loop :: "outside \<Rightarrow> string \<Rightarrow> real list list \<Rightarrow> real list list \<Rightarrow> nat
    \<Rightarrow> (real \<times> int) list \<Rightarrow> anomaly list \<Rightarrow> anomaly list action" where
  "detect_loop out sname features recent_features idx [] anomalies w = (Inr anomalies, w)"
| "detect_loop out sname features recent_features idx ((score, is_anomaly) # rest) anomalies w =
     (if is_anomaly = 1 then
        (let sev = determine_severity score in
         if idx < length recent_features then
           (let feature_vector = recent_features ! idx;
                affected = find_affected features 0 (zip metric_names feature_vector)
            in case datetime_now out w of
                 (now, w1) \<Rightarrow>
                   (let a = \<lparr>anomaly_service_name = sname, anomaly_timestamp = now,
                             anomaly_type = ''metric_deviation'', severity = sev,
                             anomaly_score = score, affected_metrics = py_join '', '' affected,
                             description = generate_description sev affected\<rparr>
                    in case store_anomaly out a w1 of
                         (Inl x, w2) \<Rightarrow> (Inl x, w2)
                       | (Inr u, w2) \<Rightarrow>
                           detect_loop out sname features recent_features (Suc idx) rest
                             (anomalies @ [a]) w2))
         else (Inl IndexError, w))
      else detect_loop out sname features recent_features (Suc idx) rest anomalies w)"

definition detect_anomalies :: "outside \<Rightarrow> string \<Rightarrow> anomaly list action" where
  "detect_anomalies out sname w =
     (case get_metric_features out sname 24 w of
        (Inl x, w1) \<Rightarrow> (Inl x, w1)
      | (Inr features, w1) \<Rightarrow>
          if length features < 10 then (Inr [], w1)
          else (case ecod_fit out features of
                  Inl x \<Rightarrow> (Inl x, w1)
                | Inr (X, scores, predictions) \<Rightarrow>
                    detect_loop out sname X (take 5 X) 0
                      (zip (take 5 scores) (take 5 predictions)) [] w1))"

text \<open>
  The value \<open>get_anomalies\<close> gives key \<open>affected_metrics\<close> for a row:
  \<open>row[6].split(', ') if row[6] else []\<close>.
\<close>

fun row_affected_metrics :: "anomaly_row \<Rightarrow> exn + string list" where
  "row_affected_metrics (rid, sname, ts, ty, sev, sc, am, descr, created_at) =
     (case am of
        None \<Rightarrow> Inr []
      | Some s \<Rightarrow> if s = [] then Inr [] else py_split s '', '')"

section \<open>Metrics collector\<close>

subsection \<open>Python operations on a decoded response\<close>

text \<open>\<open>x[key]\<close> for a string key: a dict looks the key up, anything else raises TypeError.\<close>

fun subscript_key :: "json \<Rightarrow> string \<Rightarrow> exn + json" where
  "subscript_key (JDict kvs) k = (case map_of kvs k of None \<Rightarrow> Inl KeyError | Some v \<Rightarrow> Inr v)"
| "subscript_key j k = Inl TypeError"

text \<open>
  \<open>x[i]\<close> for a literal index \<open>i \<ge> 0\<close>: a list or a str gives its element or raises
  IndexError; a decoded dict has string keys only, so it raises KeyError; anything else
  raises TypeError.
\<close>

fun subscript_index :: "json \<Rightarrow> nat \<Rightarrow> exn + json" where
  "subscript_index (JList xs) i = (if i < length xs then Inr (xs ! i) else Inl IndexError)"
| "subscript_index (JStr s) i = (if i < length s then Inr (JStr [s ! i]) else Inl IndexError)"
| "subscript_index (JDict kvs) i = Inl KeyError"
| "subscript_index j i = Inl TypeError"

text \<open>Truth value of an object in a condition.\<close>

fun truthy :: "json \<Rightarrow> bool" where
  "truthy JNull = False"
| "truthy (JBool b) = b"
| "truthy (JInt i) = (i \<noteq> 0)"
| "truthy (JFloat r) = (r \<noteq> 0)"
| "truthy (JStr s) = (s \<noteq> [])"
| "truthy (JList xs) = (xs \<noteq> [])"
| "truthy (JDict kvs) = (kvs \<noteq> [])"

text \<open>
  \<open>float(x)\<close>: a str is parsed (ValueError where it is no number), an int is converted
  (OverflowError beyond the range of a double), a bool counts as 0 or 1, anything else
  raises TypeError.
\<close>

fun py_float :: "outside \<Rightarrow> json \<Rightarrow> exn + real" where
  "py_float out (JStr s) = (case str_to_float out s of None \<Rightarrow> Inl ValueError | Some r \<Rightarrow> Inr r)"
| "py_float out (JInt i) =
     (if \<bar>i\<bar> \<ge> 2 ^ 1024 - 2 ^ 970 then Inl OverflowError else Inr (real_of_int i))"
| "py_float out (JFloat r) = Inr r"
| "py_float out (JBool b) = Inr (if b then 1 else 0)"
| "py_float out j = Inl TypeError"

text \<open>\<open>int(x)\<close> on a float: truncation towards zero.\<close>

definition py_int :: "real \<Rightarrow> int" where
  "py_int r = (if r \<ge> 0 then \<lfloor>r\<rfloor> else \<lceil>r\<rceil>)"

text \<open>Sequencing of two computations that may raise.\<close>

definition and_then :: "exn + 'a \<Rightarrow> ('a \<Rightarrow> exn + 'b) \<Rightarrow> exn + 'b" where
  "and_then m f = (case m of Inl x \<Rightarrow> Inl x | Inr v \<Rightarrow> f v)"

subsection \<open>\<open>PrometheusClient\<close> and \<open>MetricsCollector\<close>\<close>

fun exn_name :: "exn \<Rightarrow> string" where
  "exn_name KeyError = ''KeyError''"
| "exn_name IndexError = ''IndexError''"
| "exn_name ValueError = ''ValueError''"
| "exn_name TypeError = ''TypeError''"
| "exn_name OverflowError = ''OverflowError''"
| "exn_name IntegrityError = ''IntegrityError''"
| "exn_name OperationalError = ''OperationalError''"
| "exn_name RequestException = ''RequestException''"

text \<open>
  \<open>PrometheusClient.query\<close>: the decoded response, or the error document when the
  request or the decoding raises (the handler prints and catches every \<open>Exception\<close>).
\<close>

definition query :: "outside \<Rightarrow> string \<Rightarrow> world \<Rightarrow> json \<times> world" where
  "query out q w =
     (case http_get out (io w) q of
        Inr response \<Rightarrow> (response, w\<lparr>io := Suc (io w)\<rparr>)
      | Inl e \<Rightarrow>
          (JDict [(''status'', JStr ''error''), (''data'', JDict [(''result'', JList [])])],
           w\<lparr>io := Suc (io w), stdout := stdout w @ [''Prometheus query failed: '' @ exn_name e]\<rparr>))"

text \<open>
  \<open>_extract_value\<close>. The body of the \<open>try\<close> is \<open>extract_value_try\<close> (\<open>None\<close> when the
  condition is false and control falls through); the \<open>except\<close> clause catches KeyError,
  IndexError and ValueError, and both ways out of it end in \<open>return 0.0\<close>.
\<close>

definition extract_value_try :: "outside \<Rightarrow> json \<Rightarrow> exn + real option" where
  "extract_value_try out response =
     and_then (subscript_key response ''status'') (\<lambda>status.
       if status \<noteq> JStr ''success'' then Inr None
       else and_then (subscript_key response ''data'') (\<lambda>data.
            and_then (subscript_key data ''result'') (\<lambda>result.
              if \<not> truthy result then Inr None
              else and_then (subscript_key response ''data'') (\<lambda>data.
                   and_then (subscript_key data ''result'') (\<lambda>result.
                   and_then (subscript_index result 0) (\<lambda>first.
                   and_then (subscript_key first ''value'') (\<lambda>val.
                   and_then (subscript_index val 1) (\<lambda>v.
                   and_then (py_float out v) (\<lambda>r. Inr (Some r))))))))))"

definition extract_value :: "outside \<Rightarrow> json \<Rightarrow> exn + real" where
  "extract_value out response =
     (case extract_value_try out response of
        Inr (Some r) \<Rightarrow> Inr r
      | Inr None \<Rightarrow> Inr 0
      | Inl e \<Rightarrow> if e \<in> {KeyError, IndexError, ValueError} then Inr 0 else Inl e)"

text \<open>One statement after another: the second runs on the value and state of the first, unless that raised.\<close>

definition then_do :: "'a action \<Rightarrow> ('a \<Rightarrow> 'b action) \<Rightarrow> 'b action" where
  "then_do m f w = (case m w of (Inl e, w1) \<Rightarrow> (Inl e, w1) | (Inr v, w1) \<Rightarrow> f v w1)"

text \<open>The expression \<open>self._extract_value(self.prom.query(q))\<close>.\<close>

definition extract_query :: "outside \<Rightarrow> string \<Rightarrow> real action" where
  "extract_query out q w = (case query out q w of (response, w1) \<Rightarrow> (extract_value out response, w1))"

text \<open>The label matcher \<open>{service="name"}\<close> the queries share (character 0x22 is the double quote).\<close>

definition service_label :: "string \<Rightarrow> string" where
  "service_label sname = ''{service='' @ [CHR 0x22] @ sname @ [CHR 0x22] @ ''}''"

definition collect_service_metrics :: "outside \<Rightarrow> string \<Rightarrow> ServiceMetrics action" where
  "collect_service_metrics out sname w =
     (let req_rate_query = ''rate(http_requests_total'' @ service_label sname @ ''[5m])'';
          error_rate_query = ''rate(http_requests_total{service='' @ [CHR 0x22] @ sname @ [CHR 0x22]
            @ '',status=~'' @ [CHR 0x22] @ ''5..'' @ [CHR 0x22] @ ''}[5m])'';
          p50_query = ''histogram_quantile(0.5, rate(http_request_duration_seconds_bucket''
            @ service_label sname @ ''[5m]))'';
          p95_query = ''histogram_quantile(0.95, rate(http_request_duration_seconds_bucket''
            @ service_label sname @ ''[5m]))'';
          p99_query = ''histogram_quantile(0.99, rate(http_request_duration_seconds_bucket''
            @ service_label sname @ ''[5m]))'';
          cpu_query = ''rate(container_cpu_usage_seconds_total'' @ service_label sname @ ''[5m])'';
          mem_query = ''container_memory_usage_bytes'' @ service_label sname;
          restart_query = ''kube_pod_container_status_restarts_total'' @ service_label sname;
          pod_count_query = ''count(kube_pod_info'' @ service_label sname @ '')''
      in then_do (extract_query out req_rate_query) (\<lambda>req_rate.
         then_do (extract_query out error_rate_query) (\<lambda>err_rate.
         then_do (extract_query out p50_query) (\<lambda>p50.
         then_do (extract_query out p95_query) (\<lambda>p95.
         then_do (extract_query out p99_query) (\<lambda>p99.
         then_do (extract_query out cpu_query) (\<lambda>cpu.
         then_do (extract_query out mem_query) (\<lambda>mem.
         then_do (extract_query out restart_query) (\<lambda>restarts.
         then_do (extract_query out pod_count_query) (\<lambda>pods.
           (\<lambda>w9. case datetime_now out w9 of
              (now, w10) \<Rightarrow>
                (Inr \<lparr>service_name = sname, timestamp = now, request_rate = req_rate,
                       error_rate = err_rate, latency_p50 = p50, latency_p95 = p95,
                       latency_p99 = p99, cpu_usage = cpu, memory_usage = mem,
                       restart_count = py_int restarts, pod_count = py_int pods\<rparr>, w10))))))))))) w)"

section \<open>Scheduler\<close>

text \<open>
  Python's control structures on statements that may raise. \<open>for x in xs: body\<close> stops at
  the first exception and passes it on; \<open>try: body / except Exception as e: handler\<close>
  runs the handler on the state the body left (every exception of the model is an
  \<open>Exception\<close>).
\<close>

fun for_loop :: "'a list \<Rightarrow> ('a \<Rightarrow> unit action) \<Rightarrow> unit action" where
  "for_loop [] body w = (Inr (), w)"
| "for_loop (x # xs) body w =
     (case body x w of (Inl e, w1) \<Rightarrow> (Inl e, w1) | (Inr u, w1) \<Rightarrow> for_loop xs body w1)"


definition print :: "string \<Rightarrow> unit action" where
  "print line w = (Inr (), w\<lparr>stdout := stdout w @ [line]\<rparr>)"









section \<open>Notions used to state the properties of the detector\<close>

text \<open>
  The observations the loop acts on: those labelled 1. An anomaly \<open>describes\<close> the
  observation at index \<open>idx\<close> with score \<open>score\<close> when its fields are the ones the
  loop computes from them; a row of \<open>metrics_anomalies\<close> is an anomaly \<open>persisted_as\<close> a
  row when its columns are the anomaly's fields.
\<close>

fun describes :: "string \<Rightarrow> real list list \<Rightarrow> real list list \<Rightarrow> anomaly \<Rightarrow> nat \<times> real \<times> int \<Rightarrow> bool" where
  "describes sname X recent a (idx, score, label) =
       (anomaly_service_name a = sname \<and> anomaly_type a = ''metric_deviation''
        \<and> severity a = determine_severity score \<and> anomaly_score a = score
        \<and> affected_metrics a = py_join '', '' (find_affected X 0 (zip metric_names (recent ! idx)))
        \<and> description a = generate_description (determine_severity score)
             (find_affected X 0 (zip metric_names (recent ! idx))))"

fun persisted_as :: "anomaly_row \<Rightarrow> anomaly \<Rightarrow> bool" where
  "persisted_as (rid, sname, ts, ty, sev, sc, am, descr, created_at) a =
       (sname = anomaly_service_name a \<and> ts = anomaly_timestamp a \<and> ty = Some (anomaly_type a)
        \<and> sev = Some (severity a) \<and> sc = Some (anomaly_score a)
        \<and> am = Some (affected_metrics a) \<and> descr = Some (description a))"

fun labelled_anomalous :: "nat \<times> real \<times> int \<Rightarrow> bool" where
  "labelled_anomalous (idx, score, label) = (label = 1)"




text \<open>
  \<open>matched scores labels\<close>: the observations the loop acts on, with their indices. The
  severity scale of the specification, low < medium < high < critical, as a rank; the
  severity rule and the attribution rule as the specification words them, to be compared
  with what the loop computes.
\<close>

definition matched :: "real list \<Rightarrow> int list \<Rightarrow> (nat \<times> real \<times> int) list" where
  "matched scores labels = filter labelled_anomalous (enumerate 0 (zip (take 5 scores) (take 5 labels)))"

definition severity_rank :: "string \<Rightarrow> nat" where
  "severity_rank s =
     (if s = ''critical'' then 3 else if s = ''high'' then 2 else if s = ''medium'' then 1 else 0)"

fun severity_assigned :: "anomaly \<Rightarrow> nat \<times> real \<times> int \<Rightarrow> bool" where
  "severity_assigned a (idx, score, label) =
     (severity a = (if score > 0.9 then ''critical'' else if score > 0.7 then ''high''
                    else if score > 0.5 then ''medium'' else ''low''))"


section \<open>Running examples\<close>

text \<open>A running example: a store that already holds a row for the key to be written.\<close>

definition outside_ok :: outside where
  "outside_ok =
     \<lparr>clock = (\<lambda>k. 1000 + int k), db_fault = (\<lambda>k. None),
      http_get = (\<lambda>k q. Inl RequestException), str_to_float = (\<lambda>s. None),
      ecod = (\<lambda>X. Inr (replicate (length X) 0, 1 # replicate (length X - 1) 0))\<rparr>"

definition example_metrics :: "real \<Rightarrow> ServiceMetrics" where
  "example_metrics x =
     \<lparr>service_name = ''api-gateway'', timestamp = 1000, request_rate = x, error_rate = 0,
      latency_p50 = 0, latency_p95 = 0, latency_p99 = 0, cpu_usage = 0, memory_usage = 0,
      restart_count = 0, pod_count = 1\<rparr>"

definition example_world :: world where
  "example_world =
     \<lparr>db = \<lparr>service_metrics = [(1, stored_payload (example_metrics 7))], service_metrics_seq = 1,
            metrics_anomalies = [], metrics_anomalies_seq = 0, services = []\<rparr>,
      io = 0, stdout = [], slept = 0\<rparr>"

text \<open>
  A window of ten records of one service: nine with cpu_usage 0 and the most recent one
  with cpu_usage 10, every other feature constant; and a stand-in for the fitted model
  that labels the two most recent observations, with scores 0.95 and 0.6.
\<close>

definition example_scores :: "real list" where
  "example_scores = [0.95, 0.6, 0.1, 0.1, 0.1, 0.1, 0.1, 0.1, 0.1, 0.1]"

definition example_labels :: "int list" where
  "example_labels = [1, 1, 0, 0, 0, 0, 0, 0, 0, 0]"

definition outside_model :: outside where
  "outside_model =
     \<lparr>clock = (\<lambda>k. 1000 + int k), db_fault = (\<lambda>k. None),
      http_get = (\<lambda>k q. Inl RequestException), str_to_float = (\<lambda>s. None),
      ecod = (\<lambda>X. Inr (example_scores, example_labels))\<rparr>"

definition example_row :: "nat \<Rightarrow> real \<Rightarrow> metric_row" where
  "example_row n cpu =
     (n, ''api-gateway'', int n, Some 100, Some 0.01, Some 50, Some 120, Some 200, Some cpu,
      Some 512, Some 0, Some 3)"

definition example_window_world :: world where
  "example_window_world =
     \<lparr>db = \<lparr>service_metrics = map (\<lambda>n. example_row n 0) [1, 2, 3, 4, 5, 6, 7, 8, 9] @ [example_row 10 10],
            service_metrics_seq = 10, metrics_anomalies = [], metrics_anomalies_seq = 0,
            services = []\<rparr>,
      io = 0, stdout = [], slept = 0\<rparr>"

definition example_matrix :: "real list list" where
  "example_matrix =
     (let flat = [100, 0.01, 120, 0, 512, 0]
      in [[100, 0.01, 120, 10, 512, 0], flat, flat, flat, flat, flat, flat, flat, flat, flat])"

text \<open>
  Responses and surroundings for the collector and the scheduler: the error document of
  \<open>PrometheusClient.query\<close>; a successful response whose sample value is JSON \<open>null\<close>; a
  Prometheus that always answers with it; a database that cannot be opened; a Prometheus
  that answers the first request with the \<open>null\<close> sample and fails every later one; and
  a registry with two active services and an inactive one.
\<close>

definition error_document :: json where
  "error_document = JDict [(''status'', JStr ''error''), (''data'', JDict [(''result'', JList [])])]"

definition null_reading :: json where
  "null_reading =
     JDict [(''status'', JStr ''success''),
            (''data'', JDict [(''result'', JList [JDict [(''value'', JList [JInt 1700000000, JNull])]])])]"

definition outside_null :: outside where
  "outside_null = outside_ok\<lparr>http_get := (\<lambda>k q. Inr null_reading)\<rparr>"




section \<open>Properties of the store\<close>

lemma insert_replace_ok:
  "insert_service_metrics Replace vals d =
     Inr (d\<lparr>service_metrics :=
              filter (\<lambda>r. metric_key r \<noteq> (fst vals, fst (snd vals))) (service_metrics d)
                @ [(Suc (service_metrics_seq d), vals)],
            service_metrics_seq := Suc (service_metrics_seq d)\<rparr>)"
  by (simp add: insert_service_metrics_def Let_def)

lemma metric_key_new: "metric_key (rid, vals) = (fst vals, fst (snd vals))"
  by (cases vals) simp



lemma insert_replace_others:
  assumes "insert_service_metrics Replace vals d = Inr d'" and "k \<noteq> (fst vals, fst (snd vals))"
  shows "payloads_at k d' = payloads_at k d"
proof -
  let ?k = "(fst vals, fst (snd vals))"
  have d': "service_metrics d' =
      filter (\<lambda>r. metric_key r \<noteq> ?k) (service_metrics d) @ [(Suc (service_metrics_seq d), vals)]"
    using assms by (auto simp: insert_replace_ok)
  have "filter (\<lambda>r. metric_key r = k) (filter (\<lambda>r. metric_key r \<noteq> ?k) (service_metrics d))
      = filter (\<lambda>r. metric_key r = k) (service_metrics d)"
    using assms(2) by (auto intro: filter_cong)
  then show ?thesis
    using assms(2) by (simp add: payloads_at_def d' metric_key_new)
qed






section \<open>Properties of the detector\<close>

lemma store_anomaly_ok:
  assumes "db_fault out (io w) = None"
  shows "\<exists>row w'. store_anomaly out a w = (Inr (), w')
      \<and> metrics_anomalies (db w') = metrics_anomalies (db w) @ [row] \<and> persisted_as row a
      \<and> service_metrics (db w') = service_metrics (db w) \<and> io w' = Suc (Suc (io w))"
  using assms
  by (simp add: store_anomaly_def sqlite3_connect_def datetime_now_def Let_def)

lemma detect_loop_result:
  assumes "\<forall>k\<ge>io w. db_fault out k = None" and "idx + length pairs \<le> length recent"
  shows "\<exists>new rows w'. detect_loop out sname X recent idx pairs acc w = (Inr (acc @ new), w')
      \<and> list_all2 (describes sname X recent) new (filter labelled_anomalous (enumerate idx pairs))
      \<and> metrics_anomalies (db w') = metrics_anomalies (db w) @ rows
      \<and> list_all2 persisted_as rows new
      \<and> service_metrics (db w') = service_metrics (db w) \<and> io w \<le> io w'"
  using assms
proof (induction pairs arbitrary: idx acc w)
  case Nil
  then show ?case by simp
next
  case (Cons p pairs)
  obtain score label where p: "p = (score, label)" by (cases p)
  have len: "Suc idx + length pairs \<le> length recent" and idx: "idx < length recent"
    using Cons.prems(2) by simp_all
  show ?case
  proof (cases "label = 1")
    case False
    from Cons.IH [OF Cons.prems(1) len, of acc] obtain new rows w'
      where "detect_loop out sname X recent (Suc idx) pairs acc w = (Inr (acc @ new), w')"
        "list_all2 (describes sname X recent) new (filter labelled_anomalous (enumerate (Suc idx) pairs))"
        "metrics_anomalies (db w') = metrics_anomalies (db w) @ rows"
        "list_all2 persisted_as rows new"
        "service_metrics (db w') = service_metrics (db w)" "io w \<le> io w'"
      by blast
    with False show ?thesis
      by (simp add: p)
  next
    case True
    define affected where "affected = find_affected X 0 (zip metric_names (recent ! idx))"
    define a where "a = \<lparr>anomaly_service_name = sname, anomaly_timestamp = clock out (io w),
          anomaly_type = ''metric_deviation'', severity = determine_severity score,
          anomaly_score = score, affected_metrics = py_join '', '' affected,
          description = generate_description (determine_severity score) affected\<rparr>"
    define w1 where "w1 = w\<lparr>io := Suc (io w)\<rparr>"
    have "db_fault out (io w1) = None"
      using Cons.prems(1) by (simp add: w1_def)
    from store_anomaly_ok [OF this, of a] obtain row w2
      where st: "store_anomaly out a w1 = (Inr (), w2)"
        "metrics_anomalies (db w2) = metrics_anomalies (db w1) @ [row]" "persisted_as row a"
        "service_metrics (db w2) = service_metrics (db w1)" "io w2 = Suc (Suc (io w1))"
      by blast
    have f2: "\<forall>k\<ge>io w2. db_fault out k = None"
      using Cons.prems(1) st(5) by (simp add: w1_def)
    from Cons.IH [OF f2 len, of "acc @ [a]"] obtain new rows w'
      where ih: "detect_loop out sname X recent (Suc idx) pairs (acc @ [a]) w2 = (Inr ((acc @ [a]) @ new), w')"
        "list_all2 (describes sname X recent) new (filter labelled_anomalous (enumerate (Suc idx) pairs))"
        "metrics_anomalies (db w') = metrics_anomalies (db w2) @ rows"
        "list_all2 persisted_as rows new"
        "service_metrics (db w') = service_metrics (db w2)" "io w2 \<le> io w'"
      by blast
    have step: "detect_loop out sname X recent idx (p # pairs) acc w = (Inr (acc @ a # new), w')"
      using True idx st(1) ih(1)
      by (simp add: p datetime_now_def Let_def a_def affected_def w1_def)
    have d: "describes sname X recent a (idx, score, label)"
      by (simp add: a_def affected_def)
    have "list_all2 (describes sname X recent) (a # new)
        (filter labelled_anomalous (enumerate idx (p # pairs)))"
      using True d ih(2) by (simp add: p)
    moreover have "metrics_anomalies (db w') = metrics_anomalies (db w) @ (row # rows)"
      using ih(3) st(2) by (simp add: w1_def)
    moreover have "list_all2 persisted_as (row # rows) (a # new)"
      using st(3) ih(4) by simp
    moreover have "service_metrics (db w') = service_metrics (db w)"
      using ih(5) st(4) by (simp add: w1_def)
    moreover have "io w \<le> io w'"
      using ih(6) st(5) by (simp add: w1_def)
    ultimately show ?thesis
      using step by blast
  qed
qed

lemma get_metric_features_connected:
  assumes "db_fault out (io w) = None"
  shows "get_metric_features out sname h w =
     (Inr (map feature_columns (window_rows (db w) sname (clock out (Suc (io w)) - timedelta_hours h))),
      w\<lparr>io := Suc (Suc (io w))\<rparr>)"
  using assms
  by (simp add: get_metric_features_def sqlite3_connect_def datetime_now_def Let_def)

lemma get_metric_features_db: "db (snd (get_metric_features out sname h w)) = db w"
  by (simp add: get_metric_features_def sqlite3_connect_def datetime_now_def Let_def
      split: option.splits)

lemma get_metric_features_io: "io w \<le> io (snd (get_metric_features out sname h w))"
  by (simp add: get_metric_features_def sqlite3_connect_def datetime_now_def Let_def
      split: option.splits)

lemma get_metric_features_shape:
  assumes "get_metric_features out sname h w = (Inr features, w1)"
  shows "\<forall>row\<in>set features. length row = 6"
proof -
  have "length (feature_columns r) = 6" for r
    by (cases r rule: feature_columns.cases) simp
  then show ?thesis
    using assms
    by (auto simp: get_metric_features_def sqlite3_connect_def datetime_now_def Let_def
        split: option.splits if_splits)
qed

lemma ecod_fit_shape:
  assumes "ecod_fit out features = Inr (X, scores, labels)"
  shows "X = map (map the) features"
  using assms
  by (auto simp: ecod_fit_def as_float_matrix_def split: if_splits sum.splits)




lemma window_matrix_shape:
  assumes "get_metric_features out sname h w = (Inr features, w1)"
    and "ecod_fit out features = Inr (X, scores, labels)"
  shows "length X = length features \<and> (\<forall>row\<in>set X. length row = 6)"
  using get_metric_features_shape [OF assms(1)] ecod_fit_shape [OF assms(2)]
  by simp

lemma detect_anomalies_result:
  assumes nf: "\<forall>k\<ge>io w. db_fault out k = None"
    and gf: "get_metric_features out sname 24 w = (Inr features, w1)"
    and len: "10 \<le> length features"
    and fit: "ecod_fit out features = Inr (X, scores, labels)"
  shows "\<exists>anoms rows w'. detect_anomalies out sname w = (Inr anoms, w')
      \<and> list_all2 (describes sname X X) anoms
           (filter labelled_anomalous (enumerate 0 (zip (take 5 scores) (take 5 labels))))
      \<and> metrics_anomalies (db w') = metrics_anomalies (db w) @ rows
      \<and> list_all2 persisted_as rows anoms
      \<and> service_metrics (db w') = service_metrics (db w)"
proof -
  let ?pairs = "zip (take 5 scores) (take 5 labels)"
  let ?matched = "filter labelled_anomalous (enumerate 0 ?pairs)"
  have lx: "length X = length features"
    using window_matrix_shape [OF gf fit] by simp
  have w1: "db w1 = db w" "io w \<le> io w1"
    using get_metric_features_db [where out = out and sname = sname and h = 24 and w = w] get_metric_features_io [where out = out and sname = sname and h = 24 and w = w] gf
    by simp_all
  have nf1: "\<forall>k\<ge>io w1. db_fault out k = None"
    using nf w1(2) by simp
  have bound: "0 + length ?pairs \<le> length (take 5 X)"
    using len lx by simp
  from detect_loop_result [OF nf1 bound, where sname = sname and X = X and acc = "[]"] obtain anoms rows w'
    where loop: "detect_loop out sname X (take 5 X) 0 ?pairs [] w1 = (Inr anoms, w')"
      "list_all2 (describes sname X (take 5 X)) anoms ?matched"
      "metrics_anomalies (db w') = metrics_anomalies (db w1) @ rows"
      "list_all2 persisted_as rows anoms"
      "service_metrics (db w') = service_metrics (db w1)"
    by auto
  have det: "detect_anomalies out sname w = (Inr anoms, w')"
    using gf len fit loop(1) by (simp add: detect_anomalies_def)
  have "describes sname X X a p" if "p \<in> set ?matched" "describes sname X (take 5 X) a p" for a p
  proof -
    obtain idx score label where p: "p = (idx, score, label)" by (cases p)
    have "idx < 5"
      using that(1) by (auto simp: p in_set_enumerate_eq)
    then show ?thesis
      using that(2) by (simp add: p)
  qed
  with loop(2) have "list_all2 (describes sname X X) anoms ?matched"
    by (auto elim: list.rel_mono_strong)
  with det loop(3,4,5) w1(1) show ?thesis
    by auto
qed

lemma matched_indices:
  "list_all (\<lambda>p. fst p < 5) (filter labelled_anomalous (enumerate 0 (zip (take 5 scores) (take 5 labels))))"
  by (auto simp: list_all_iff in_set_enumerate_eq)

lemma matched_at_most_5:
  "length (filter labelled_anomalous (enumerate 0 (zip (take 5 scores) (take 5 labels)))) \<le> 5"
proof -
  have "length (filter labelled_anomalous (enumerate 0 (zip (take 5 scores) (take 5 labels))))
      \<le> length (enumerate 0 (zip (take 5 scores) (take 5 labels)))"
    by (rule length_filter_le)
  then show ?thesis by simp
qed







lemma example_features:
  "get_metric_features outside_model ''api-gateway'' 24 example_window_world
     = (Inr (map (map Some) example_matrix), example_window_world\<lparr>io := 2\<rparr>)"
  by (simp add: get_metric_features_def sqlite3_connect_def datetime_now_def outside_model_def
      example_window_world_def window_rows_def example_row_def timedelta_hours_def
      example_matrix_def Let_def)

lemma example_fit:
  "ecod_fit outside_model (map (map Some) example_matrix)
     = Inr (example_matrix, example_scores, example_labels)"
  by (simp add: ecod_fit_def as_float_matrix_def outside_model_def example_matrix_def Let_def)



lemma get_metric_features_window:
  assumes "get_metric_features out sname h w = (Inr features, w1)"
  shows "\<exists>cutoff. features = map feature_columns (window_rows (db w) sname cutoff)"
  using assms
  by (auto simp: get_metric_features_def sqlite3_connect_def datetime_now_def Let_def
      split: option.splits if_splits)

lemma window_rows_recent_first:
  "sorted (map (\<lambda>r. - metric_timestamp r) (window_rows d sname cutoff))"
  by (simp add: window_rows_def)

text \<open>
  C3. When the window read for a service holds fewer than 10 records (none included),
  \<open>detect_anomalies\<close> returns the empty list and leaves the database, hence the table
  of anomalies, as it was.
\<close>

theorem detect_anomalies_small_window:
  assumes "get_metric_features out sname 24 w = (Inr features, w1)" and "length features < 10"
  shows "detect_anomalies out sname w = (Inr [], w1) \<and> db w1 = db w
      \<and> metrics_anomalies (db w1) = metrics_anomalies (db w)"
proof -
  have "db w1 = db w"
    using get_metric_features_db [where out = out and sname = sname and h = 24 and w = w] assms(1)
    by simp
  then show ?thesis
    using assms by (simp add: detect_anomalies_def)
qed

theorem detect_anomalies_small_window_witness:
  "get_metric_features outside_ok ''api-gateway'' 24 example_world
     = (Inr [[Some 7, Some 0, Some 0, Some 0, Some 0, Some 0]], example_world\<lparr>io := 2\<rparr>)
   \<and> length [[Some (7::real), Some 0, Some 0, Some 0, Some 0, Some 0]] < 10
   \<and> detect_anomalies outside_ok ''api-gateway'' example_world = (Inr [], example_world\<lparr>io := 2\<rparr>)
   \<and> metrics_anomalies (db (example_world\<lparr>io := 2\<rparr>)) = metrics_anomalies (db example_world)"
proof -
  have g: "get_metric_features outside_ok ''api-gateway'' 24 example_world
     = (Inr [[Some 7, Some 0, Some 0, Some 0, Some 0, Some 0]], example_world\<lparr>io := 2\<rparr>)"
    by (simp add: get_metric_features_def sqlite3_connect_def datetime_now_def outside_ok_def
        example_world_def window_rows_def stored_payload_def example_metrics_def
        timedelta_hours_def Let_def)
  have l: "length [[Some (7::real), Some 0, Some 0, Some 0, Some 0, Some 0]] < 10"
    by simp
  from detect_anomalies_small_window [OF g l] g show ?thesis
    by simp
qed

lemma determine_severity_mono:
  "s1 \<le> s2 \<Longrightarrow> severity_rank (determine_severity s1) \<le> severity_rank (determine_severity s2)"
  by (simp add: determine_severity_def severity_rank_def)

lemma describes_severity: "describes sname X X a p \<Longrightarrow> severity_assigned a p"
  by (cases p) (simp add: determine_severity_def)

text \<open>
  C4. When the store can be opened, the window holds at least 10 records and the model
  is fitted, detection returns, and every anomaly it reports for an observation labelled
  anomalous among the first five has severity critical for a score above 0.9, else high
  above 0.7, else medium above 0.5, else low. The severity never decreases when the
  score grows; 0.95 gives critical and 0.6 gives medium.
\<close>

theorem severity_by_thresholds:
  assumes "\<forall>k\<ge>io w. db_fault out k = None"
    and "get_metric_features out sname 24 w = (Inr features, w1)"
    and "10 \<le> length features"
    and "ecod_fit out features = Inr (X, scores, labels)"
  shows "\<exists>anoms w'. detect_anomalies out sname w = (Inr anoms, w')
      \<and> list_all2 severity_assigned anoms (matched scores labels)
      \<and> (\<forall>s1 s2. s1 \<le> s2 \<longrightarrow>
            severity_rank (determine_severity s1) \<le> severity_rank (determine_severity s2))
      \<and> determine_severity 0.95 = ''critical'' \<and> determine_severity 0.6 = ''medium''"
proof -
  from detect_anomalies_result [OF assms] obtain anoms w'
    where d: "detect_anomalies out sname w = (Inr anoms, w')"
      "list_all2 (describes sname X X) anoms (matched scores labels)"
    unfolding matched_def by blast
  from d(2) have "list_all2 severity_assigned anoms (matched scores labels)"
    by (rule list_all2_mono) (rule describes_severity)
  with d(1) show ?thesis
    using determine_severity_mono by (auto simp: determine_severity_def)
qed

lemma example_matched: "matched example_scores example_labels = [(0, 0.95, 1), (1, 0.6, 1)]"
  by (simp add: matched_def example_scores_def example_labels_def enumerate_eq_zip upt_rec)

lemma example_db_fault: "db_fault outside_model = (\<lambda>k. None)"
  by (simp add: outside_model_def)

lemma example_no_fault: "\<forall>k\<ge>io example_window_world. db_fault outside_model k = None"
  by (simp add: outside_model_def)

lemma example_length: "10 \<le> length (map (map Some) example_matrix)"
  by (simp add: example_matrix_def Let_def)

theorem severity_by_thresholds_witness:
  "db_fault outside_model = (\<lambda>k. None)
   \<and> get_metric_features outside_model ''api-gateway'' 24 example_window_world
       = (Inr (map (map Some) example_matrix), example_window_world\<lparr>io := 2\<rparr>)
   \<and> 10 \<le> length (map (map Some) example_matrix)
   \<and> ecod_fit outside_model (map (map Some) example_matrix)
       = Inr (example_matrix, example_scores, example_labels)
   \<and> (\<exists>a1 a2 w'. detect_anomalies outside_model ''api-gateway'' example_window_world = (Inr [a1, a2], w')
        \<and> anomaly_score a1 = 0.95 \<and> severity a1 = ''critical''
        \<and> anomaly_score a2 = 0.6 \<and> severity a2 = ''medium'')"
proof -
  from severity_by_thresholds [OF example_no_fault example_features example_length example_fit]
  obtain anoms w'
    where d: "detect_anomalies outside_model ''api-gateway'' example_window_world = (Inr anoms, w')"
      "list_all2 severity_assigned anoms (matched example_scores example_labels)"
    by blast
  from detect_anomalies_result [OF example_no_fault example_features example_length example_fit] d(1)
  have s: "list_all2 (describes ''api-gateway'' example_matrix example_matrix) anoms
      (matched example_scores example_labels)"
    unfolding matched_def by auto
  from d(2) s obtain a1 a2 where "anoms = [a1, a2]" "severity a1 = ''critical''"
    "severity a2 = ''medium''" "anomaly_score a1 = 0.95" "anomaly_score a2 = 0.6"
    by (auto simp: example_matched list_all2_Cons2)
  with d(1) example_db_fault example_features example_length example_fit show ?thesis
    by blast
qed





text \<open>
  C6. Under the same conditions, detection looks at the first five entries of the
  window, which is ordered most recent first, reports one anomaly for each of them that
  the model labels anomalous, in order (so at most five), appends one row per reported
  anomaly to the table of anomalies, carrying its fields, and returns exactly the
  anomalies it stored; the metrics table is not touched.
\<close>

theorem detect_anomalies_recent_five:
  assumes "\<forall>k\<ge>io w. db_fault out k = None"
    and "get_metric_features out sname 24 w = (Inr features, w1)"
    and "10 \<le> length features"
    and "ecod_fit out features = Inr (X, scores, labels)"
  shows "\<exists>anoms rows w'. detect_anomalies out sname w = (Inr anoms, w')
      \<and> list_all2 (describes sname X X) anoms (matched scores labels)
      \<and> list_all (\<lambda>p. fst p < 5) (matched scores labels)
      \<and> length anoms = length (matched scores labels) \<and> length anoms \<le> 5
      \<and> metrics_anomalies (db w') = metrics_anomalies (db w) @ rows
      \<and> list_all2 persisted_as rows anoms
      \<and> service_metrics (db w') = service_metrics (db w)
      \<and> X = map (map the) features
      \<and> (\<exists>cutoff. features = map feature_columns (window_rows (db w) sname cutoff)
            \<and> sorted (map (\<lambda>r. - metric_timestamp r) (window_rows (db w) sname cutoff)))"
proof -
  from detect_anomalies_result [OF assms] obtain anoms rows w'
    where d: "detect_anomalies out sname w = (Inr anoms, w')"
      "list_all2 (describes sname X X) anoms (matched scores labels)"
      "metrics_anomalies (db w') = metrics_anomalies (db w) @ rows"
      "list_all2 persisted_as rows anoms"
      "service_metrics (db w') = service_metrics (db w)"
    unfolding matched_def by blast
  have l: "length anoms = length (matched scores labels)"
    using d(2) by (rule list_all2_lengthD)
  have m: "list_all (\<lambda>p. fst p < 5) (matched scores labels)" "length (matched scores labels) \<le> 5"
    using matched_indices [of scores labels] matched_at_most_5 [of scores labels]
    by (simp_all add: matched_def)
  from get_metric_features_window [OF assms(2)] obtain cutoff
    where c: "features = map feature_columns (window_rows (db w) sname cutoff)"
    by blast
  from d l m c window_rows_recent_first [of "db w" sname cutoff] ecod_fit_shape [OF assms(4)]
  show ?thesis
    by auto
qed

theorem detect_anomalies_recent_five_witness:
  "db_fault outside_model = (\<lambda>k. None)
   \<and> get_metric_features outside_model ''api-gateway'' 24 example_window_world
       = (Inr (map (map Some) example_matrix), example_window_world\<lparr>io := 2\<rparr>)
   \<and> 10 \<le> length (map (map Some) example_matrix)
   \<and> ecod_fit outside_model (map (map Some) example_matrix)
       = Inr (example_matrix, example_scores, example_labels)
   \<and> (\<exists>a1 a2 r1 r2 w'. detect_anomalies outside_model ''api-gateway'' example_window_world = (Inr [a1, a2], w')
        \<and> metrics_anomalies (db w') = [r1, r2] \<and> persisted_as r1 a1 \<and> persisted_as r2 a2)"
proof -
  from detect_anomalies_recent_five [OF example_no_fault example_features example_length example_fit]
  obtain anoms rows w'
    where d: "detect_anomalies outside_model ''api-gateway'' example_window_world = (Inr anoms, w')"
      "length anoms = length (matched example_scores example_labels)"
      "metrics_anomalies (db w') = metrics_anomalies (db example_window_world) @ rows"
      "list_all2 persisted_as rows anoms"
    by blast
  from d(2) obtain a1 a2 where a: "anoms = [a1, a2]"
    by (auto simp: example_matched length_Suc_conv)
  with d(4) obtain r1 r2 where "rows = [r1, r2]" "persisted_as r1 a1" "persisted_as r2 a2"
    by (auto simp: list_all2_Cons2)
  with a d(1,3) have "\<exists>a1 a2 r1 r2 w'.
      detect_anomalies outside_model ''api-gateway'' example_window_world = (Inr [a1, a2], w')
      \<and> metrics_anomalies (db w') = [r1, r2] \<and> persisted_as r1 a1 \<and> persisted_as r2 a2"
    by (auto simp: example_window_world_def)
  with example_db_fault example_features example_length example_fit show ?thesis
    by blast
qed

section \<open>The affected-metrics column\<close>

lemma split_from_no_comma:
  assumes "CHR '','' \<notin> set w"
  shows "split_from '', '' cur (w @ rest) = split_from '', '' (cur @ w) rest"
  using assms
proof (induction w arbitrary: cur)
  case Nil
  then show ?case by simp
next
  case (Cons c w)
  then have "c \<noteq> CHR '',''" and "CHR '','' \<notin> set w" by auto
  with Cons.IH [of "cur @ [c]"] show ?case by simp
qed

lemma split_from_separator:
  "split_from '', '' cur ('', '' @ rest) = cur # split_from '', '' [] rest"
  by simp

lemma split_join:
  assumes "\<forall>x\<in>set (x # xs). CHR '','' \<notin> set x"
  shows "split_from '', '' cur (py_join '', '' (x # xs)) = (cur @ x) # xs"
  using assms
proof (induction xs arbitrary: x cur)
  case Nil
  then show ?case
    using split_from_no_comma [of x cur "[]"] by simp
next
  case (Cons y ys)
  have x: "CHR '','' \<notin> set x" and rest: "\<forall>z\<in>set (y # ys). CHR '','' \<notin> set z"
    using Cons.prems by auto
  have "split_from '', '' cur (py_join '', '' (x # y # ys))
      = split_from '', '' (cur @ x) ('', '' @ py_join '', '' (y # ys))"
    using split_from_no_comma [OF x] by simp
  also have "\<dots> = (cur @ x) # split_from '', '' [] (py_join '', '' (y # ys))"
    by (rule split_from_separator)
  also have "\<dots> = (cur @ x) # y # ys"
    using Cons.IH [OF rest, of "[]"] by simp
  finally show ?case .
qed

lemma metric_names_plain: "x \<in> set metric_names \<Longrightarrow> CHR '','' \<notin> set x \<and> x \<noteq> []"
  by (auto simp: metric_names_def)

lemma py_join_nonempty: "x \<noteq> [] \<Longrightarrow> py_join sep (x # xs) \<noteq> []"
  by (cases xs) simp_all

lemma parse_join:
  assumes "set names \<subseteq> set metric_names"
  shows "row_affected_metrics (rid, sname, ts, ty, sev, sc, Some (py_join '', '' names), descr, created_at)
      = Inr names"
proof (cases names)
  case Nil
  then show ?thesis by simp
next
  case (Cons x xs)
  have plain: "\<forall>z\<in>set (x # xs). CHR '','' \<notin> set z" and x: "x \<noteq> []"
    using assms metric_names_plain by (auto simp: Cons)
  have "py_join '', '' (x # xs) \<noteq> []"
    using x by (rule py_join_nonempty)
  moreover have "split_from '', '' [] (py_join '', '' (x # xs)) = x # xs"
    using split_join [OF plain, of "[]"] by simp
  ultimately show ?thesis
    by (simp add: Cons py_split_def)
qed

text \<open>
  C10. A list of affected metric names drawn from the six feature names, written as
  \<open>', '.join(names)\<close> into column \<open>affected_metrics\<close> and read back by
  \<open>get_anomalies\<close>, comes back as the same list; the empty list is written as the empty
  string and read back as the empty list.
\<close>

theorem affected_metrics_roundtrip:
  assumes "set names \<subseteq> set metric_names"
  shows "row_affected_metrics (rid, sname, ts, ty, sev, sc, Some (py_join '', '' names), descr, created_at)
        = Inr names
      \<and> (\<forall>row a. persisted_as row a \<and> affected_metrics a = py_join '', '' names
            \<longrightarrow> row_affected_metrics row = Inr names)
      \<and> py_join '', '' [] = []
      \<and> row_affected_metrics (rid, sname, ts, ty, sev, sc, Some [], descr, created_at) = Inr []"
proof -
  have "row_affected_metrics row = Inr names"
    if "persisted_as row a" "affected_metrics a = py_join '', '' names" for row a
  proof -
    obtain rid' sname' ts' ty' sev' sc' am' descr' cr'
      where row: "row = (rid', sname', ts', ty', sev', sc', am', descr', cr')"
      by (metis prod_cases3)
    have "am' = Some (py_join '', '' names)"
      using that by (simp add: row)
    then show ?thesis
      using parse_join [OF assms] by (simp only: row)
  qed
  with parse_join [OF assms] show ?thesis
    by auto
qed

theorem affected_metrics_roundtrip_witness:
  "set [''error_rate'', ''cpu_usage''] \<subseteq> set metric_names
   \<and> py_join '', '' [''error_rate'', ''cpu_usage''] = ''error_rate, cpu_usage''
   \<and> row_affected_metrics (1, ''api-gateway'', 1000, Some ''metric_deviation'', Some ''high'', Some 0.8,
        Some ''error_rate, cpu_usage'', Some ''High anomaly: unusual patterns in error_rate, cpu_usage'',
        1001) = Inr [''error_rate'', ''cpu_usage'']"
proof -
  have h: "set [''error_rate'', ''cpu_usage''] \<subseteq> set metric_names"
    by (simp add: metric_names_def)
  have j: "py_join '', '' [''error_rate'', ''cpu_usage''] = ''error_rate, cpu_usage''"
    by simp
  from affected_metrics_roundtrip [OF h, of 1 "''api-gateway''" 1000 "Some ''metric_deviation''"
      "Some ''high''" "Some 0.8" "Some ''High anomaly: unusual patterns in error_rate, cpu_usage''" 1001]
  show ?thesis
    using h j by simp
qed

section \<open>Properties of the collector\<close>

lemma extract_value_null: "extract_value out null_reading = Inl TypeError"
  by (simp add: extract_value_def extract_value_try_def and_then_def null_reading_def)

lemma extract_value_error_document: "extract_value out error_document = Inr 0"
  by (simp add: extract_value_def extract_value_try_def and_then_def error_document_def)

lemma query_failed:
  "http_get out (io w) q = Inl e \<Longrightarrow> fst (query out q w) = error_document"
  by (simp add: query_def error_document_def)

lemma extract_query_failed:
  "http_get out (io w) q = Inl e \<Longrightarrow> fst (extract_query out q w) = Inr 0"
  using extract_value_error_document [of out]
  by (simp add: extract_query_def query_def error_document_def)

lemma extract_value_not_a_number:
  "str_to_float out s = None \<Longrightarrow>
   extract_value out (JDict [(''status'', JStr ''success''),
      (''data'', JDict [(''result'', JList [JDict [(''value'', JList [JInt t, JStr s])]])])]) = Inr 0"
  by (simp add: extract_value_def extract_value_try_def and_then_def)

lemma extract_value_empty_result:
  "extract_value out (JDict [(''status'', JStr ''success''), (''data'', JDict [(''result'', JList [])])])
     = Inr 0"
  by (simp add: extract_value_def extract_value_try_def and_then_def)

lemma extract_query_null:
  "extract_query outside_null q w = (Inl TypeError, w\<lparr>io := Suc (io w)\<rparr>)"
  using extract_value_null [of outside_null]
  by (simp add: extract_query_def query_def outside_null_def)

lemma subscript_key_raises: "subscript_key j k = Inl e \<Longrightarrow> e = KeyError \<or> e = TypeError"
  by (cases j) (auto split: option.splits)

lemma subscript_index_raises:
  "subscript_index j i = Inl e \<Longrightarrow> e = IndexError \<or> e = KeyError \<or> e = TypeError"
  by (cases j) (auto split: if_splits)

lemma py_float_raises:
  "py_float out j = Inl e \<Longrightarrow> e = ValueError \<or> e = OverflowError \<or> e = TypeError"
  by (cases j) (auto split: option.splits if_splits)

lemma and_then_Inl:
  "and_then m f = Inl e \<Longrightarrow> m = Inl e \<or> (\<exists>v. m = Inr v \<and> f v = Inl e)"
  by (cases m) (simp_all add: and_then_def)

lemma extract_value_try_raises:
  assumes "extract_value_try out response = Inl e"
  shows "e \<in> {KeyError, IndexError, ValueError, TypeError, OverflowError}"
  using assms unfolding extract_value_try_def
  by (auto dest!: and_then_Inl subscript_key_raises subscript_index_raises py_float_raises
      split: if_splits)

lemma extract_value_raises:
  assumes "extract_value out response = Inl e"
  shows "e = TypeError \<or> e = OverflowError"
proof (cases "extract_value_try out response")
  case (Inl x)
  with assms have "x = e" "e \<notin> {KeyError, IndexError, ValueError}"
    by (auto simp: extract_value_def split: if_splits)
  with extract_value_try_raises [OF Inl] show ?thesis by auto
next
  case (Inr v)
  with assms show ?thesis
    by (cases v) (simp_all add: extract_value_def)
qed

lemma extract_query_source_down:
  assumes "\<And>k q. \<exists>e. http_get out k q = Inl e"
  shows "\<exists>w1. extract_query out q w = (Inr 0, w1)"
proof -
  from assms obtain e where "http_get out (io w) q = Inl e" by blast
  then show ?thesis
    using extract_value_error_document [of out]
    by (simp add: extract_query_def query_def error_document_def)
qed

lemma then_do_post:
  assumes "\<And>w. \<exists>w1. m w = (Inr v, w1)" and "\<And>w. \<exists>r w1. f v w = (Inr r, w1) \<and> P r"
  shows "\<exists>r w1. then_do m f w = (Inr r, w1) \<and> P r"
proof -
  from assms(1) obtain w1 where "m w = (Inr v, w1)" by blast
  moreover from assms(2) obtain r w2 where "f v w1 = (Inr r, w2)" "P r" by blast
  ultimately show ?thesis by (simp add: then_do_def)
qed

lemma collect_source_down:
  assumes "\<And>k q. \<exists>e. http_get out k q = Inl e"
  shows "\<exists>m w1. collect_service_metrics out sname w = (Inr m, w1) \<and> (service_name m = sname
      \<and> request_rate m = 0 \<and> error_rate m = 0 \<and> latency_p50 m = 0 \<and> latency_p95 m = 0
      \<and> latency_p99 m = 0 \<and> cpu_usage m = 0 \<and> memory_usage m = 0 \<and> restart_count m = 0
      \<and> pod_count m = 0)"
proof -
  have q: "\<exists>w1. extract_query out q w = (Inr 0, w1)" for q w
    by (rule extract_query_source_down [OF assms])
  show ?thesis
    unfolding collect_service_metrics_def Let_def
    apply (rule then_do_post [where v = 0], rule q)+
    apply (simp add: datetime_now_def py_int_def)
    done
qed

text \<open>
  C7. Collection is meant to replace every unavailable or malformed reading by 0.0 and
  never to raise on a failure of the source. It does so for failed requests, error
  statuses, empty results and unparsable strings (the lemmas above), but not always: on
  a successful response whose sample value is \<open>null\<close>, \<open>float\<close> raises TypeError, which
  the \<open>except\<close> clause of \<open>_extract_value\<close> does not list; the exception leaves
  \<open>collect_service_metrics\<close> at the first reading and no record is produced.
\<close>

theorem collect_raises_on_null_reading:
  "extract_value out null_reading = Inl TypeError
   \<and> collect_service_metrics outside_null sname w = (Inl TypeError, w\<lparr>io := Suc (io w)\<rparr>)"
  by (simp add: extract_value_null collect_service_metrics_def then_do_def extract_query_null Let_def)

section \<open>Properties of the scheduler\<close>

lemma print_ok: "print line w = (Inr (), w\<lparr>stdout := stdout w @ [line]\<rparr>)"
  by (simp add: print_def)




lemma for_loop_slept:
  "slept (snd (for_loop names body w)) = slept w"
  if "\<And>x w1. slept (snd (body x w1)) = slept w1"
  using that
proof (induction names arbitrary: w)
  case Nil
  then show ?case by simp
next
  case (Cons x names)
  obtain r w1 where b: "body x w = (r, w1)" by (cases "body x w")
  have "slept w1 = slept w" using Cons.prems [of x w] b by simp
  then show ?case
    using Cons.IH [of w1] Cons.prems b by (cases r) simp_all
qed

























end
